theory Spec2Isabelle
  imports Main "HOL-Library.Word" "HOL-Library.Multiset"
begin

section \<open>JavaScript values used by the ranking pipeline\<close>

text \<open>
  A JavaScript string is a sequence of UTF-16 code units; \<^verbatim>\<open>length\<close> counts them and
  \<^verbatim>\<open>charCodeAt(i)\<close> reads one. \<open>js\<close> writes an ASCII literal as such a sequence.
\<close>

type_synonym jsstring = "16 word list"

definition js :: "string \<Rightarrow> jsstring" where
  "js s = map of_char s"

text \<open>The only exception the modelled code can raise.\<close>

datatype error = TypeError

text \<open>
  A property that holds \<^verbatim>\<open>undefined\<close>/\<^verbatim>\<open>null\<close>, a string, or an array of strings
  (\<^verbatim>\<open>subjects\<close> and \<^verbatim>\<open>requirements\<close> occur in both shapes, see
  \<^verbatim>\<open>Array.isArray(subjects) ? subjects : subjects.split(',')\<close> in OpportunityCard.jsx).
\<close>

datatype field = Absent | Text jsstring | Items "jsstring list"

text \<open>Truthiness: a string is truthy when non-empty, an array always.\<close>

fun truthy :: "field \<Rightarrow> bool" where
  "truthy Absent = False"
| "truthy (Text s) = (s \<noteq> [])"
| "truthy (Items xs) = True"

fun strField :: "jsstring option \<Rightarrow> field" where
  "strField None = Absent"
| "strField (Some s) = Text s"

text \<open>
  Numbers. The values that occur are integers far below \<open>2^53\<close>, so double arithmetic on them
  is exact and \<open>int\<close> models it. \<open>toInt32\<close> is the conversion applied by the bitwise
  operators (\<^verbatim>\<open>hash |= 0\<close>, \<^verbatim>\<open>hash & hash\<close>, the operands of \<^verbatim>\<open><<\<close>); \<open>jsRem\<close> is \<^verbatim>\<open>%\<close>,
  whose result takes the sign of the dividend (the divisor is never 0 here).
\<close>

definition toInt32 :: "int \<Rightarrow> int" where
  "toInt32 x = (x + 2 ^ 31) mod 2 ^ 32 - 2 ^ 31"

definition shl :: "int \<Rightarrow> nat \<Rightarrow> int" where
  "shl x n = toInt32 (toInt32 x * 2 ^ n)"

definition jsRem :: "int \<Rightarrow> int \<Rightarrow> int" where
  "jsRem a b = (if a < 0 then - ((- a) mod \<bar>b\<bar>) else a mod \<bar>b\<bar>)"

text \<open>\<^verbatim>\<open>s.includes(t)\<close>: \<open>t\<close> occurs in \<open>s\<close> at some position.\<close>

definition includes_str :: "jsstring \<Rightarrow> jsstring \<Rightarrow> bool" where
  "includes_str s t = list_ex (\<lambda>i. take (length t) (drop i s) = t) [0..<Suc (length s)]"

text \<open>
  The regular-expression classes \<^verbatim>\<open>\s\<close> (also the characters removed by \<^verbatim>\<open>trim\<close>) and \<^verbatim>\<open>\w\<close>.
\<close>

definition isWhiteSpace :: "16 word \<Rightarrow> bool" where
  "isWhiteSpace c =
     (c \<in> set [0x09, 0x0A, 0x0B, 0x0C, 0x0D, 0x20, 0xA0, 0x1680, 0x2028, 0x2029,
                0x202F, 0x205F, 0x3000, 0xFEFF] \<or> (0x2000 \<le> c \<and> c \<le> 0x200A))"

definition isWordChar :: "16 word \<Rightarrow> bool" where
  "isWordChar c =
     ((0x30 \<le> c \<and> c \<le> 0x39) \<or> (0x41 \<le> c \<and> c \<le> 0x5A) \<or> c = 0x5F \<or> (0x61 \<le> c \<and> c \<le> 0x7A))"

definition trim :: "jsstring \<Rightarrow> jsstring" where
  "trim s = rev (dropWhile isWhiteSpace (rev (dropWhile isWhiteSpace s)))"

text \<open>\<^verbatim>\<open>Array.prototype.join\<close> on an array of strings.\<close>

fun join :: "jsstring \<Rightarrow> jsstring list \<Rightarrow> jsstring" where
  "join sep [] = []"
| "join sep [x] = x"
| "join sep (x # y # ys) = x @ sep @ join sep (y # ys)"

text \<open>
  The string an array element contributes to \<^verbatim>\<open>join\<close>: a string itself, an array its
  \<^verbatim>\<open>toString()\<close> (the elements joined by commas), \<^verbatim>\<open>undefined\<close>/\<^verbatim>\<open>null\<close> the empty string.
\<close>

fun toStr :: "field \<Rightarrow> jsstring" where
  "toStr Absent = []"
| "toStr (Text s) = s"
| "toStr (Items xs) = join (js '','') xs"

text \<open>
  \<^verbatim>\<open>text.split(/\s+/)\<close>: the pieces between maximal runs of white space; a run at the start
  or at the end leaves an empty piece there, and the empty string splits into one empty piece.
\<close>

function splitWS :: "jsstring \<Rightarrow> jsstring list" where
  "splitWS s =
     (let w = takeWhile (\<lambda>c. \<not> isWhiteSpace c) s;
          r = dropWhile (\<lambda>c. \<not> isWhiteSpace c) s
      in if r = [] then [w] else w # splitWS (dropWhile isWhiteSpace r))"
  by pat_completeness auto
termination
proof (relation "measure length")
  fix s w r :: jsstring
  assume r: "r = dropWhile (\<lambda>c. \<not> isWhiteSpace c) s" and ne: "r \<noteq> []"
  from ne obtain c cs where rc: "r = c # cs" by (cases r) auto
  with r have "isWhiteSpace c"
    by (metis dropWhile_eq_Cons_conv)
  then have "length (dropWhile isWhiteSpace r) \<le> length cs"
    by (simp add: rc length_dropWhile_le)
  moreover have "length r \<le> length s"
    by (simp add: r length_dropWhile_le)
  ultimately show "(dropWhile isWhiteSpace r, s) \<in> measure length"
    by (simp add: rc)
qed simp

text \<open>The equation of \<open>splitWS\<close> is unconditional: it is used by name only.\<close>

declare splitWS.simps [simp del]

text \<open>
  \<^verbatim>\<open>Array.prototype.sort(compareFn)\<close>. The comparator's result is a number, \<open>None\<close> standing
  for \<^verbatim>\<open>NaN\<close>, which \<^verbatim>\<open>sort\<close> reads as \<open>0\<close>. ECMAScript fixes the result only for a
  consistent comparator: one that never returns \<^verbatim>\<open>NaN\<close> on the elements and orders them as a
  total preorder. The sort is stable (ECMAScript 2019), so the result is then the one
  computed by insertion, where an element moves behind another only if it compares greater.
  For any other comparator the order is left to the implementation: \<open>engineSort\<close> stands for
  the implementation's algorithm, and is asked only for an order of the given elements.
\<close>

definition cmpNum :: "int option \<Rightarrow> int" where
  "cmpNum v = (case v of None \<Rightarrow> 0 | Some n \<Rightarrow> n)"

definition consistentOn :: "('a \<Rightarrow> 'a \<Rightarrow> int option) \<Rightarrow> 'a list \<Rightarrow> bool" where
  "consistentOn compareFn xs =
     ((\<forall>a \<in> set xs. \<forall>b \<in> set xs. compareFn a b \<noteq> None)
      \<and> (\<forall>a \<in> set xs. cmpNum (compareFn a a) = 0)
      \<and> (\<forall>a \<in> set xs. \<forall>b \<in> set xs.
            cmpNum (compareFn a b) = 0 \<longrightarrow> cmpNum (compareFn b a) = 0)
      \<and> (\<forall>a \<in> set xs. \<forall>b \<in> set xs. \<forall>c \<in> set xs.
            (cmpNum (compareFn a b) = 0 \<and> cmpNum (compareFn b c) = 0
               \<longrightarrow> cmpNum (compareFn a c) = 0)
            \<and> (cmpNum (compareFn a b) < 0 \<and> cmpNum (compareFn b c) < 0
               \<longrightarrow> cmpNum (compareFn a c) < 0)
            \<and> (cmpNum (compareFn a b) > 0 \<and> cmpNum (compareFn b c) > 0
               \<longrightarrow> cmpNum (compareFn a c) > 0)))"

fun insertBy :: "('a \<Rightarrow> 'a \<Rightarrow> int option) \<Rightarrow> 'a \<Rightarrow> 'a list \<Rightarrow> 'a list" where
  "insertBy compareFn x [] = [x]"
| "insertBy compareFn x (y # ys) =
     (if cmpNum (compareFn x y) > 0 then y # insertBy compareFn x ys else x # y # ys)"

definition array_sort ::
  "(('a \<Rightarrow> 'a \<Rightarrow> int option) \<Rightarrow> 'a list \<Rightarrow> 'a list)
     \<Rightarrow> ('a \<Rightarrow> 'a \<Rightarrow> int option) \<Rightarrow> 'a list \<Rightarrow> 'a list" where
  "array_sort engineSort compareFn xs =
     (if consistentOn compareFn xs then foldr (insertBy compareFn) xs []
      else if mset (engineSort compareFn xs) = mset xs then engineSort compareFn xs
      else xs)"

text \<open>
  One implementation: V8 (Node.js, Chrome) on an array of fewer than 64 elements, which its
  TimSort treats as a single run. \<^verbatim>\<open>CountAndMakeRun\<close> finds the longest prefix that is
  non-descending, or strictly descending (and then reverses it); \<^verbatim>\<open>BinaryInsertionSort\<close>
  adds the remaining elements one at a time, at the place a binary search of the sorted
  prefix gives. A \<^verbatim>\<open>NaN\<close> from the comparator is read as 0.
\<close>

fun continueRun :: "('a \<Rightarrow> 'a \<Rightarrow> int option) \<Rightarrow> bool \<Rightarrow> 'a \<Rightarrow> 'a list \<Rightarrow> nat" where
  "continueRun compareFn isDescending previousElement [] = 0"
| "continueRun compareFn isDescending previousElement (currentElement # rest) =
     (let order = cmpNum (compareFn currentElement previousElement)
      in if (if isDescending then order \<ge> 0 else order < 0) then 0
         else Suc (continueRun compareFn isDescending currentElement rest))"

definition countAndMakeRun ::
  "('a \<Rightarrow> 'a \<Rightarrow> int option) \<Rightarrow> 'a list \<Rightarrow> 'a list \<times> nat" where
  "countAndMakeRun compareFn xs =
     (case xs of
        elementHigh # elementLow # rest \<Rightarrow>
          (let isDescending = (cmpNum (compareFn elementLow elementHigh) < 0);
               runLength = 2 + continueRun compareFn isDescending elementLow rest
           in (if isDescending then rev (take runLength xs) @ drop runLength xs else xs,
               runLength))
      | _ \<Rightarrow> (xs, length xs))"

function binarySearch ::
  "('a \<Rightarrow> 'a \<Rightarrow> int option) \<Rightarrow> 'a \<Rightarrow> 'a list \<Rightarrow> nat \<Rightarrow> nat \<Rightarrow> nat" where
  "binarySearch compareFn pivot ys left right =
     (if left < right
      then (let mid = left + (right - left) div 2;
                order = cmpNum (compareFn pivot (ys ! mid))
            in if order < 0 then binarySearch compareFn pivot ys left mid
               else binarySearch compareFn pivot ys (mid + 1) right)
      else left)"
  by pat_completeness auto
termination
  by (relation "measure (\<lambda>(compareFn, pivot, ys, left, right). right - left)") auto

declare binarySearch.simps [simp del]

definition binaryInsert ::
  "('a \<Rightarrow> 'a \<Rightarrow> int option) \<Rightarrow> 'a list \<Rightarrow> 'a \<Rightarrow> 'a list" where
  "binaryInsert compareFn workArray pivot =
     (let left = binarySearch compareFn pivot workArray 0 (length workArray)
      in take left workArray @ pivot # drop left workArray)"

definition v8Sort :: "('a \<Rightarrow> 'a \<Rightarrow> int option) \<Rightarrow> 'a list \<Rightarrow> 'a list" where
  "v8Sort compareFn xs =
     (if length xs < 2 then xs
      else (let (ys, runLength) = countAndMakeRun compareFn xs
            in fold (\<lambda>pivot workArray. binaryInsert compareFn workArray pivot)
                 (drop runLength ys) (take runLength ys)))"

text \<open>
  A plain object used as a dictionary (\<^verbatim>\<open>const wordCount = {}\<close>): its own properties in
  creation order. A property value here is a number, or a string that does not read as a
  number (\<open>Str\<close>), which is what \<^verbatim>\<open>+ 1\<close> makes of an inherited function.
\<close>

datatype jsval = Num int | Str

type_synonym jsobject = "(jsstring \<times> jsval) list"

text \<open>
  The properties every plain object inherits from \<^verbatim>\<open>Object.prototype\<close>: eleven methods and the
  accessor \<^verbatim>\<open>__proto__\<close>.
\<close>

definition prototypeMethods :: "jsstring list" where
  "prototypeMethods = map js
     [''constructor'', ''__defineGetter__'', ''__defineSetter__'', ''hasOwnProperty'',
      ''__lookupGetter__'', ''__lookupSetter__'', ''isPrototypeOf'', ''propertyIsEnumerable'',
      ''toString'', ''valueOf'', ''toLocaleString'']"

definition protoAccessor :: jsstring where
  "protoAccessor = js ''__proto__''"

text \<open>Assignment \<^verbatim>\<open>obj[k] = v\<close> to a data property: update in place, or create at the end.\<close>

fun setProp :: "jsobject \<Rightarrow> jsstring \<Rightarrow> jsval \<Rightarrow> jsobject" where
  "setProp [] k v = [(k, v)]"
| "setProp ((k', v') # ps) k v = (if k' = k then (k, v) # ps else (k', v') # setProp ps k v)"

text \<open>
  \<^verbatim>\<open>wordCount[cleanWord] = (wordCount[cleanWord] || 0) + 1\<close>.
  \<^item> An own number \<open>n\<close> becomes \<open>n + 1\<close> (also for \<open>n = 0\<close>, through \<^verbatim>\<open>|| 0\<close>).
  \<^item> An own string is truthy, and \<^verbatim>\<open>+ 1\<close> appends to it: it stays a string.
  \<^item> No own property, the key is \<^verbatim>\<open>__proto__\<close>: the getter returns the prototype object,
    \<^verbatim>\<open>+ 1\<close> makes a string of it, and the setter ignores a value that is no object:
    nothing is stored.
  \<^item> No own property, the key names an inherited method: the function is truthy,
    \<^verbatim>\<open>+ 1\<close> makes a string of its source text, and the assignment creates an own property
    holding that string.
  \<^item> Otherwise the read gives \<^verbatim>\<open>undefined\<close>, and the property is created with the value 1.
\<close>

definition countWord :: "jsobject \<Rightarrow> jsstring \<Rightarrow> jsobject" where
  "countWord wordCount cleanWord =
     (case map_of wordCount cleanWord of
        Some (Num n) \<Rightarrow> setProp wordCount cleanWord (Num (n + 1))
      | Some Str \<Rightarrow> setProp wordCount cleanWord Str
      | None \<Rightarrow>
          if cleanWord = protoAccessor then wordCount
          else if cleanWord \<in> set prototypeMethods then setProp wordCount cleanWord Str
          else setProp wordCount cleanWord (Num 1))"

text \<open>
  \<^verbatim>\<open>Object.entries\<close> lists the properties whose key is an array index (a canonical decimal
  numeral up to \<open>2^32 - 2\<close>, such as \<^verbatim>\<open>"2025"\<close>) first, in ascending numeric order, and then
  the other properties in creation order.
\<close>

definition isDigit :: "16 word \<Rightarrow> bool" where
  "isDigit c = (0x30 \<le> c \<and> c \<le> 0x39)"

definition indexValue :: "jsstring \<Rightarrow> int" where
  "indexValue k = fold (\<lambda>c n. 10 * n + (uint c - 48)) k 0"

definition isArrayIndex :: "jsstring \<Rightarrow> bool" where
  "isArrayIndex k =
     (k \<noteq> [] \<and> list_all isDigit k \<and> (k = js ''0'' \<or> hd k \<noteq> 0x30) \<and> indexValue k \<le> 4294967294)"

definition Object_entries :: "jsobject \<Rightarrow> (jsstring \<times> jsval) list" where
  "Object_entries obj =
     sort_key (\<lambda>p. indexValue (fst p)) (filter (\<lambda>p. isArrayIndex (fst p)) obj)
       @ filter (\<lambda>p. \<not> isArrayIndex (fst p)) obj"

text \<open>Subtraction \<^verbatim>\<open>b[1] - a[1]\<close> of two property values: \<^verbatim>\<open>NaN\<close> when one is such a string.\<close>

fun jsSub :: "jsval \<Rightarrow> jsval \<Rightarrow> int option" where
  "jsSub (Num a) (Num b) = Some (a - b)"
| "jsSub _ _ = None"

section \<open>The data model\<close>

record opportunity =
  id_opp :: jsstring
  title :: "jsstring option"
  university :: "jsstring option"
  department :: "jsstring option"
  description :: "jsstring option"
  subjects :: field
  requirements :: field
  deadline :: "jsstring option"
  postedDate :: "jsstring option"
  fullyFunded :: bool
  international :: bool
  supervisor :: "jsstring option"

record userProfile =
  id_user :: "jsstring option"
  interests :: "jsstring list option"
  sop :: "jsstring option"

text \<open>The \<^verbatim>\<open>filters\<close> state of the list component.\<close>

record filterConfig =
  fullyFunded_on :: bool
  international_on :: bool
  hasDeadline :: bool
  hasSupervisor :: bool
  subjects_on :: "jsstring list"

text \<open>Truthiness of an optional string: present and non-empty.\<close>

fun truthyStr :: "jsstring option \<Rightarrow> bool" where
  "truthyStr None = False"
| "truthyStr (Some s) = (s \<noteq> [])"


section \<open>searchService.js: the compatibility score\<close>

text \<open>
  \<^verbatim>\<open>String.prototype.toLowerCase\<close> is a library function over the Unicode case tables; the
  functions below take it as the parameter \<open>lc\<close>. \<open>asciiLower\<close> is its restriction to ASCII
  strings, used to evaluate examples.
\<close>

definition asciiLower :: "jsstring \<Rightarrow> jsstring" where
  "asciiLower s = map (\<lambda>c. if 0x41 \<le> c \<and> c \<le> 0x5A then c + 0x20 else c) s"

text \<open>
  The inner \<^verbatim>\<open>generateScore\<close>:
  \<^verbatim>\<open>for (i...) { hash = ((hash << 5) - hash) + combined.charCodeAt(i); hash |= 0; }
  return Math.abs(hash % 100);\<close>
\<close>

definition generateScore :: "jsstring \<Rightarrow> jsstring \<Rightarrow> int" where
  "generateScore oppId userId =
     (let combined = oppId @ js ''-'' @ userId;
          hash = fold (\<lambda>c hash. toInt32 ((shl hash 5 - hash) + uint c)) combined 0
      in \<bar>jsRem hash 100\<bar>)"

text \<open>The two nested \<^verbatim>\<open>for ... of\<close> loops that add 5 for each matching pair.\<close>

definition interestLoops :: "jsstring list \<Rightarrow> jsstring list \<Rightarrow> int" where
  "interestLoops userInterests oppSubjects =
     fold (\<lambda>interest interestBonus.
             fold (\<lambda>subject interestBonus.
                     if includes_str subject interest \<or> includes_str interest subject
                     then interestBonus + 5 else interestBonus)
                  oppSubjects interestBonus)
          userInterests 0"

definition finalScore :: "int \<Rightarrow> int \<Rightarrow> int" where
  "finalScore baseScore interestBonus = min (max (baseScore + min interestBonus 20) 0) 100"

text \<open>
  \<open>None\<close> is a \<^verbatim>\<open>null\<close>/\<^verbatim>\<open>undefined\<close> argument. Arrays are truthy, so the bonus block runs
  whenever \<^verbatim>\<open>interests\<close> is present and \<^verbatim>\<open>subjects\<close> is an array or a non-empty string; a
  string has no \<^verbatim>\<open>map\<close> method, and calling it raises.
\<close>

definition calculateCompatibilityScore ::
  "(jsstring \<Rightarrow> jsstring) \<Rightarrow> opportunity option \<Rightarrow> userProfile option \<Rightarrow> error + int" where
  "calculateCompatibilityScore lc opportunity userProfile =
     (case opportunity of
        None \<Rightarrow> Inr 50
      | Some opp \<Rightarrow>
         (case userProfile of
            None \<Rightarrow> Inr 50
          | Some prof \<Rightarrow>
             (let baseScore = generateScore (id_opp opp)
                    (case id_user prof of
                       None \<Rightarrow> js ''user123''
                     | Some u \<Rightarrow> if u = [] then js ''user123'' else u)
              in case interests prof of
                   None \<Rightarrow> Inr (finalScore baseScore 0)
                 | Some ints \<Rightarrow>
                    (case subjects opp of
                       Absent \<Rightarrow> Inr (finalScore baseScore 0)
                     | Text t \<Rightarrow> if t = [] then Inr (finalScore baseScore 0) else Inl TypeError
                     | Items subs \<Rightarrow>
                         Inr (finalScore baseScore
                                (interestLoops (map lc ints) (map lc subs)))))))"

section \<open>OpportunityCard.jsx: keyword extraction\<close>

definition stopWords :: "jsstring list" where
  "stopWords = map js
     [''phd'', ''research'', ''project'', ''study'', ''university'', ''department'',
      ''the'', ''and'', ''or'', ''in'', ''at'', ''of'', ''to'', ''for'', ''with'', ''by'',
      ''funded'', ''scholarship'', ''position'', ''available'', ''applications'',
      ''apply'', ''deadline'', ''opportunity'', ''program'', ''student'', ''students'',
      ''work'', ''will'', ''be'', ''is'', ''are'', ''this'', ''that'', ''we'', ''our'', ''us'',
      ''you'', ''your'', ''they'', ''their'', ''them'', ''it'', ''its'', ''have'', ''has'',
      ''had'', ''do'', ''does'', ''did'', ''can'', ''could'', ''should'', ''would'', ''may'',
      ''might'', ''must'', ''a'', ''an'', ''on'', ''from'']"

text \<open>\<^verbatim>\<open>[title, description, department, subjects, requirements].filter(Boolean).join(' ').toLowerCase()\<close>\<close>

definition keywordText :: "(jsstring \<Rightarrow> jsstring) \<Rightarrow> opportunity \<Rightarrow> jsstring" where
  "keywordText lc opp =
     lc (join (js '' '')
          (map toStr (filter truthy
             [strField (title opp), strField (description opp), strField (department opp),
              subjects opp, requirements opp])))"

definition extractKeywords ::
  "(jsstring \<Rightarrow> jsstring)
     \<Rightarrow> (((jsstring \<times> jsval) \<Rightarrow> (jsstring \<times> jsval) \<Rightarrow> int option)
          \<Rightarrow> (jsstring \<times> jsval) list \<Rightarrow> (jsstring \<times> jsval) list)
     \<Rightarrow> opportunity \<Rightarrow> jsstring list" where
  "extractKeywords lc engineSort opp =
     (let text = keywordText lc opp;
          words = splitWS text;
          wordCount = fold (\<lambda>word wordCount.
                              let cleanWord = filter isWordChar word
                              in if length cleanWord < 4 \<or> cleanWord \<in> set stopWords
                                 then wordCount
                                 else countWord wordCount cleanWord)
                           words []
      in map fst (take 3 (array_sort engineSort (\<lambda>a b. jsSub (snd b) (snd a))
                            (Object_entries wordCount))))"

section \<open>OpportunityCard.jsx: the list component\<close>

text \<open>
  \<^verbatim>\<open>hashCode\<close>: the same loop, with \<^verbatim>\<open>hash = hash & hash\<close> as the conversion to 32 bits, and
  \<^verbatim>\<open>Math.abs(hash)\<close> returned.
\<close>

definition hashCode :: "jsstring \<Rightarrow> int" where
  "hashCode str = \<bar>fold (\<lambda>char hash. toInt32 ((shl hash 5 - hash) + uint char)) str 0\<bar>"



text \<open>
  The search predicate
  \<^verbatim>\<open>opp.title.toLowerCase().includes(query) || opp.university... || opp.department... || opp.description...\<close>:
  \<^verbatim>\<open>||\<close> evaluates its right operand only when the left one is false, and
  \<^verbatim>\<open>toLowerCase\<close> of an absent field raises.
\<close>

definition fieldIncludes ::
  "(jsstring \<Rightarrow> jsstring) \<Rightarrow> jsstring option \<Rightarrow> jsstring \<Rightarrow> error + bool" where
  "fieldIncludes lc f query =
     (case f of None \<Rightarrow> Inl TypeError | Some s \<Rightarrow> Inr (includes_str (lc s) query))"

definition orElse :: "error + bool \<Rightarrow> error + bool \<Rightarrow> error + bool" where
  "orElse a b = (case a of Inl e \<Rightarrow> Inl e | Inr True \<Rightarrow> Inr True | Inr False \<Rightarrow> b)"

definition matchesQuery :: "(jsstring \<Rightarrow> jsstring) \<Rightarrow> jsstring \<Rightarrow> opportunity \<Rightarrow> error + bool" where
  "matchesQuery lc query opp =
     orElse (fieldIncludes lc (title opp) query)
       (orElse (fieldIncludes lc (university opp) query)
          (orElse (fieldIncludes lc (department opp) query)
             (fieldIncludes lc (description opp) query)))"

text \<open>\<^verbatim>\<open>Array.prototype.filter\<close> with a predicate that may raise: the first exception ends the call.\<close>

fun filterE :: "('a \<Rightarrow> error + bool) \<Rightarrow> 'a list \<Rightarrow> error + 'a list" where
  "filterE p [] = Inr []"
| "filterE p (x # xs) =
     (case p x of
        Inl e \<Rightarrow> Inl e
      | Inr b \<Rightarrow> (case filterE p xs of
                   Inl e \<Rightarrow> Inl e
                 | Inr ys \<Rightarrow> Inr (if b then x # ys else ys)))"

text \<open>The first half of \<^verbatim>\<open>getSortedAndFilteredOpportunities\<close>: the search and the four flags.\<close>

definition filterOpportunities ::
  "(jsstring \<Rightarrow> jsstring) \<Rightarrow> opportunity list \<Rightarrow> jsstring \<Rightarrow> filterConfig
     \<Rightarrow> error + opportunity list" where
  "filterOpportunities lc opportunities searchQuery filters =
     (case (if trim searchQuery \<noteq> []
            then filterE (matchesQuery lc (lc searchQuery)) opportunities
            else Inr opportunities) of
        Inl e \<Rightarrow> Inl e
      | Inr filtered0 \<Rightarrow>
         (let filtered1 = (if fullyFunded_on filters
                           then filter (\<lambda>opp. fullyFunded opp) filtered0 else filtered0);
              filtered2 = (if international_on filters
                           then filter (\<lambda>opp. international opp) filtered1 else filtered1);
              filtered3 = (if hasDeadline filters
                           then filter (\<lambda>opp. truthyStr (deadline opp)
                                          \<and> deadline opp \<noteq> Some (js ''Deadline Not Specified''))
                                  filtered2
                           else filtered2);
              filtered4 = (if hasSupervisor filters
                           then filter (\<lambda>opp. truthyStr (supervisor opp)) filtered3 else filtered3)
          in Inr filtered4))"

text \<open>
  The second half: the comparator given to \<^verbatim>\<open>filtered.sort\<close>. \<open>parseDate\<close> stands for the
  string parser of the \<^verbatim>\<open>Date\<close> constructor (\<^verbatim>\<open>Date.parse\<close>): the time value in milliseconds
  since the epoch, or \<open>None\<close> for an invalid date, whose time value is \<^verbatim>\<open>NaN\<close>.
  \<^verbatim>\<open>new Date(0)\<close> has the time value 0.
\<close>

fun orDefault32 :: "int option \<Rightarrow> int" where
  "orDefault32 None = 32"
| "orDefault32 (Some v) = (if v = 0 then 32 else v)"

definition dateOf :: "(jsstring \<Rightarrow> int option) \<Rightarrow> opportunity \<Rightarrow> int option" where
  "dateOf parseDate a =
     (case postedDate a of
        Some p \<Rightarrow> if p \<noteq> [] then parseDate p
                  else (case deadline a of
                          Some d \<Rightarrow> if d \<noteq> [] then parseDate d else Some 0
                        | None \<Rightarrow> Some 0)
      | None \<Rightarrow> (case deadline a of
                   Some d \<Rightarrow> if d \<noteq> [] then parseDate d else Some 0
                 | None \<Rightarrow> Some 0))"

fun dateSub :: "int option \<Rightarrow> int option \<Rightarrow> int option" where
  "dateSub (Some x) (Some y) = Some (x - y)"
| "dateSub _ _ = None"

definition compareOpportunities ::
  "(jsstring \<Rightarrow> int option) \<Rightarrow> jsstring \<Rightarrow> (jsstring \<rightharpoonup> int)
     \<Rightarrow> opportunity \<Rightarrow> opportunity \<Rightarrow> int option" where
  "compareOpportunities parseDate sortBy sortedScores a b =
     (if sortBy = js ''compatibility''
      then (let scoreA = orDefault32 (sortedScores (id_opp a));
                scoreB = orDefault32 (sortedScores (id_opp b))
            in Some (scoreB - scoreA))
      else (let dateA = dateOf parseDate a;
                dateB = dateOf parseDate b
            in dateSub dateB dateA))"

definition sortOpportunities ::
  "((opportunity \<Rightarrow> opportunity \<Rightarrow> int option) \<Rightarrow> opportunity list \<Rightarrow> opportunity list)
     \<Rightarrow> (jsstring \<Rightarrow> int option) \<Rightarrow> jsstring \<Rightarrow> (jsstring \<rightharpoonup> int)
     \<Rightarrow> opportunity list \<Rightarrow> opportunity list" where
  "sortOpportunities engineSort parseDate sortBy sortedScores filtered =
     array_sort engineSort (compareOpportunities parseDate sortBy sortedScores) filtered"

definition getSortedAndFilteredOpportunities ::
  "(jsstring \<Rightarrow> jsstring)
     \<Rightarrow> ((opportunity \<Rightarrow> opportunity \<Rightarrow> int option) \<Rightarrow> opportunity list \<Rightarrow> opportunity list)
     \<Rightarrow> (jsstring \<Rightarrow> int option) \<Rightarrow> opportunity list \<Rightarrow> jsstring
     \<Rightarrow> filterConfig \<Rightarrow> jsstring \<Rightarrow> (jsstring \<rightharpoonup> int) \<Rightarrow> error + opportunity list" where
  "getSortedAndFilteredOpportunities lc engineSort parseDate opportunities searchQuery filters
       sortBy sortedScores =
     (case filterOpportunities lc opportunities searchQuery filters of
        Inl e \<Rightarrow> Inl e
      | Inr filtered \<Rightarrow>
          Inr (sortOpportunities engineSort parseDate sortBy sortedScores filtered))"


section \<open>The specification's wording\<close>

text \<open>
  The definitions of this section follow the specification, not the code; the theorems
  compare the two.
\<close>

subsection \<open>HashScore\<close>

text \<open>
  The hash on an emulated 32-bit signed accumulator. \<open>statedHash\<close> has the update as the
  specification writes it, \<^verbatim>\<open>hash = (hash * 31 - hash) + codepoint\<close>; \<open>hash32\<close> has the
  update \<^verbatim>\<open>hash = (hash * 32 - hash) + codepoint\<close>, that is \<open>31 * hash + codepoint\<close>.
\<close>

definition statedHash :: "jsstring \<Rightarrow> int" where
  "statedHash text = \<bar>sint (fold (\<lambda>c (h :: 32 word). (h * 31 - h) + ucast c) text 0)\<bar>"

definition hash32 :: "jsstring \<Rightarrow> int" where
  "hash32 text = \<bar>sint (fold (\<lambda>c (h :: 32 word). (h * 32 - h) + ucast c) text 0)\<bar>"

text \<open>\<^verbatim>\<open>boundedHash(text, min, max) = min + (hash(text) % (max - min))\<close>\<close>

definition boundedHash :: "jsstring \<Rightarrow> int \<Rightarrow> int \<Rightarrow> int" where
  "boundedHash text lo hi = lo + hash32 text mod (hi - lo)"

subsection \<open>CompatibilityScorer\<close>

definition clamp :: "int \<Rightarrow> int \<Rightarrow> int \<Rightarrow> int" where
  "clamp x lo hi = (if x < lo then lo else if hi < x then hi else x)"

text \<open>
  One string contains the other, case-insensitively; the pairs (interest, subject) that
  match; 5 for each of them, capped at 20. An absent list has no pairs.
\<close>

definition containsEitherWay :: "(jsstring \<Rightarrow> jsstring) \<Rightarrow> jsstring \<Rightarrow> jsstring \<Rightarrow> bool" where
  "containsEitherWay lc interest subject =
     (includes_str (lc subject) (lc interest) \<or> includes_str (lc interest) (lc subject))"

definition matchingPairs ::
  "(jsstring \<Rightarrow> jsstring) \<Rightarrow> jsstring list \<Rightarrow> jsstring list \<Rightarrow> (jsstring \<times> jsstring) list" where
  "matchingPairs lc ints subs =
     filter (\<lambda>(i, s). containsEitherWay lc i s) (List.product ints subs)"

definition specBonus :: "(jsstring \<Rightarrow> jsstring) \<Rightarrow> jsstring list \<Rightarrow> jsstring list \<Rightarrow> int" where
  "specBonus lc ints subs = min 20 (5 * int (length (matchingPairs lc ints subs)))"

fun itemsOf :: "field \<Rightarrow> jsstring list" where
  "itemsOf (Items xs) = xs"
| "itemsOf _ = []"

text \<open>A \<^verbatim>\<open>subjects\<close> value that is a non-empty string.\<close>

fun nonEmptyText :: "field \<Rightarrow> bool" where
  "nonEmptyText (Text t) = (t \<noteq> [])"
| "nonEmptyText _ = False"

fun listOf :: "jsstring list option \<Rightarrow> jsstring list" where
  "listOf None = []"
| "listOf (Some xs) = xs"

fun idOr :: "jsstring option \<Rightarrow> jsstring \<Rightarrow> jsstring" where
  "idOr None d = d"
| "idOr (Some u) d = (if u = [] then d else u)"

definition specScore :: "(jsstring \<Rightarrow> jsstring) \<Rightarrow> opportunity \<Rightarrow> userProfile \<Rightarrow> int" where
  "specScore lc opp prof =
     clamp (boundedHash (id_opp opp @ js ''-'' @ idOr (id_user prof) (js ''user123'')) 0 100
              + specBonus lc (listOf (interests prof)) (itemsOf (subjects opp)))
           0 100"

subsection \<open>FilterPipeline\<close>

text \<open>
  The flags as the specification states them (a deadline, a supervisor that is present), and
  as the code tests them (a non-empty string, and for the deadline not the placeholder
  \<^verbatim>\<open>'Deadline Not Specified'\<close>).
\<close>

definition statedKeeps :: "filterConfig \<Rightarrow> opportunity \<Rightarrow> bool" where
  "statedKeeps filters opp =
     ((fullyFunded_on filters \<longrightarrow> fullyFunded opp)
      \<and> (international_on filters \<longrightarrow> international opp)
      \<and> (hasDeadline filters \<longrightarrow> deadline opp \<noteq> None)
      \<and> (hasSupervisor filters \<longrightarrow> supervisor opp \<noteq> None))"

definition keeps :: "filterConfig \<Rightarrow> opportunity \<Rightarrow> bool" where
  "keeps filters opp =
     ((fullyFunded_on filters \<longrightarrow> fullyFunded opp)
      \<and> (international_on filters \<longrightarrow> international opp)
      \<and> (hasDeadline filters \<longrightarrow>
            truthyStr (deadline opp) \<and> deadline opp \<noteq> Some (js ''Deadline Not Specified''))
      \<and> (hasSupervisor filters \<longrightarrow> truthyStr (supervisor opp)))"

text \<open>The search: the lower-cased query occurs in one of the four text fields.\<close>

definition textFieldsPresent :: "opportunity \<Rightarrow> bool" where
  "textFieldsPresent opp =
     (title opp \<noteq> None \<and> university opp \<noteq> None \<and> department opp \<noteq> None \<and> description opp \<noteq> None)"

definition queryMatches :: "(jsstring \<Rightarrow> jsstring) \<Rightarrow> jsstring \<Rightarrow> opportunity \<Rightarrow> bool" where
  "queryMatches lc searchQuery opp =
     list_ex (\<lambda>f. case f of None \<Rightarrow> False | Some s \<Rightarrow> includes_str (lc s) (lc searchQuery))
       [title opp, university opp, department opp, description opp]"

subsection \<open>KeywordExtractor\<close>

text \<open>
  Steps 2 to 4 of the algorithm: the tokens of the text, stripped of non-word characters,
  without the short ones and the stop words. Step 5: the distinct tokens in the order of
  their first appearance, sorted by descending count with a stable sort, and the first three.
\<close>

definition validTokens :: "(jsstring \<Rightarrow> jsstring) \<Rightarrow> opportunity \<Rightarrow> jsstring list" where
  "validTokens lc opp =
     filter (\<lambda>w. \<not> (length w < 4 \<or> w \<in> set stopWords))
       (map (filter isWordChar) (splitWS (keywordText lc opp)))"





text \<open>
  The order in which a plain object lists its keys: array indices first, in ascending numeric
  order, then the other keys as they were first inserted. \<open>keyOrderKeywords\<close> is
  \<open>specKeywords\<close> with ties broken by that order.
\<close>

definition keyOrder :: "jsstring list \<Rightarrow> jsstring list" where
  "keyOrder ks = sort_key indexValue (filter isArrayIndex ks) @ filter (\<lambda>k. \<not> isArrayIndex k) ks"


subsection \<open>SortPipeline\<close>

text \<open>
  The key of an opportunity under a sort key: the cached score, or the time value of its
  date (\<open>None\<close> when the date is invalid). \<open>statedScore\<close> is \<^verbatim>\<open>scoreCache.get(id) ?? 32\<close>.
\<close>

fun statedScore :: "int option \<Rightarrow> int" where
  "statedScore None = 32"
| "statedScore (Some v) = v"

definition sortKeyOf ::
  "(jsstring \<Rightarrow> int option) \<Rightarrow> jsstring \<Rightarrow> (jsstring \<rightharpoonup> int) \<Rightarrow> opportunity \<Rightarrow> int option" where
  "sortKeyOf parseDate sortBy sortedScores a =
     (if sortBy = js ''compatibility'' then Some (orDefault32 (sortedScores (id_opp a)))
      else dateOf parseDate a)"

text \<open>
  An opportunity has a usable date when a date field is read and parses; \<open>unknownLast\<close> says
  that no opportunity without a usable date stands before one with a usable date.
\<close>

definition noDateFields :: "opportunity \<Rightarrow> bool" where
  "noDateFields a = (\<not> truthyStr (postedDate a) \<and> \<not> truthyStr (deadline a))"

definition usableDate :: "(jsstring \<Rightarrow> int option) \<Rightarrow> opportunity \<Rightarrow> bool" where
  "usableDate parseDate a = (\<not> noDateFields a \<and> dateOf parseDate a \<noteq> None)"

fun unknownLast :: "(jsstring \<Rightarrow> int option) \<Rightarrow> opportunity list \<Rightarrow> bool" where
  "unknownLast parseDate [] = True"
| "unknownLast parseDate (a # as) =
     ((usableDate parseDate a \<or> list_all (\<lambda>b. \<not> usableDate parseDate b) as)
      \<and> unknownLast parseDate as)"

definition timeOf :: "(jsstring \<Rightarrow> int option) \<Rightarrow> opportunity \<Rightarrow> int" where
  "timeOf parseDate a = (case dateOf parseDate a of Some t \<Rightarrow> t | None \<Rightarrow> 0)"

text \<open>
  \<^verbatim>\<open>Date.parse\<close> at the date strings of the examples below (ISO dates are read as UTC
  midnight); a string without a date, such as the placeholder, is an invalid date.
\<close>

definition sampleDates :: "jsstring \<Rightarrow> int option" where
  "sampleDates s =
     (if s = js ''2025-01-01'' then Some 1735689600000
      else if s = js ''2025-02-01'' then Some 1738368000000
      else if s = js ''1969-12-31'' then Some (- 86400000)
      else None)"


subsection \<open>Example inputs\<close>

definition blankOpp :: "jsstring \<Rightarrow> opportunity" where
  "blankOpp i =
     \<lparr>id_opp = i, title = None, university = None, department = None, description = None,
      subjects = Absent, requirements = Absent, deadline = None, postedDate = None,
      fullyFunded = False, international = False, supervisor = None\<rparr>"

definition profileOf :: "jsstring \<Rightarrow> jsstring list \<Rightarrow> userProfile" where
  "profileOf i ints = \<lparr>id_user = Some i, interests = Some ints, sop = Some (js ''statement'')\<rparr>"

definition noFilters :: filterConfig where
  "noFilters =
     \<lparr>fullyFunded_on = False, international_on = False, hasDeadline = False,
      hasSupervisor = False, subjects_on = []\<rparr>"


definition placeholderOpp :: "jsstring \<Rightarrow> opportunity" where
  "placeholderOpp i = (blankOpp i)\<lparr>deadline := Some (js ''Deadline Not Specified'')\<rparr>"

definition postedOpp :: "jsstring \<Rightarrow> jsstring \<Rightarrow> opportunity" where
  "postedOpp i d = (blankOpp i)\<lparr>postedDate := Some d\<rparr>"

definition mixedDates :: "opportunity list" where
  "mixedDates =
     [placeholderOpp (js ''1''), placeholderOpp (js ''2''),
      postedOpp (js ''3'') (js ''2025-01-01''), postedOpp (js ''4'') (js ''2025-02-01''),
      placeholderOpp (js ''5''),
      postedOpp (js ''6'') (js ''2025-02-01''), postedOpp (js ''7'') (js ''2025-02-01'')]"



section \<open>The hash\<close>

text \<open>
  The conversion \<open>toInt32\<close> reads a number as a 32-bit two's-complement word, so the loop
  over JavaScript numbers computes what a 32-bit signed accumulator computes.
\<close>

lemma toInt32_sint: "toInt32 x = sint (word_of_int x :: 32 word)"
  by (simp add: toInt32_def int_word_sint)

lemma wi_sint: "(word_of_int (sint w) :: 32 word) = w" for w :: "32 word"
  by simp

lemma wi_toInt32: "(word_of_int (toInt32 x) :: 32 word) = word_of_int x"
  by (simp add: toInt32_sint)

lemma hash_step:
  fixes w :: "32 word" and c :: "16 word"
  shows "toInt32 ((shl (sint w) 5 - sint w) + uint c) = sint ((w * 32 - w) + ucast c)"
proof -
  have a: "(word_of_int (shl (sint w) 5) :: 32 word) = w * 32"
    unfolding shl_def wi_toInt32 by (simp only: wi_hom_syms wi_toInt32 wi_sint) simp
  have "(word_of_int ((shl (sint w) 5 - sint w) + uint c) :: 32 word) = (w * 32 - w) + ucast c"
    by (simp only: wi_hom_syms a wi_sint ucast_eq)
  then show ?thesis by (simp only: toInt32_sint)
qed

lemma hash_loop:
  fixes w :: "32 word" and s :: jsstring
  shows "fold (\<lambda>c hash. toInt32 ((shl hash 5 - hash) + uint c)) s (sint w)
           = sint (fold (\<lambda>c (h :: 32 word). (h * 32 - h) + ucast c) s w)"
proof (induction s arbitrary: w)
  case Nil
  show ?case by simp
next
  case (Cons c s)
  have "fold (\<lambda>c hash. toInt32 ((shl hash 5 - hash) + uint c)) (c # s) (sint w)
          = fold (\<lambda>c hash. toInt32 ((shl hash 5 - hash) + uint c)) s
              (toInt32 ((shl (sint w) 5 - sint w) + uint c))"
    by simp
  also have "\<dots> = fold (\<lambda>c hash. toInt32 ((shl hash 5 - hash) + uint c)) s
              (sint ((w * 32 - w) + ucast c))"
    by (simp only: hash_step)
  also have "\<dots> = sint (fold (\<lambda>c (h :: 32 word). (h * 32 - h) + ucast c) s ((w * 32 - w) + ucast c))"
    by (rule Cons.IH)
  finally show ?case by simp
qed

lemma hashCode_hash32: "hashCode s = hash32 s"
  using hash_loop [of s 0] by (simp add: hashCode_def hash32_def)

lemma abs_jsRem: "0 < b \<Longrightarrow> \<bar>jsRem h b\<bar> = \<bar>h\<bar> mod b"
  by (cases "h < 0") (simp_all add: jsRem_def)



lemma generateScore_hash32: "generateScore a b = hash32 (a @ js ''-'' @ b) mod 100"
  using hash_loop [of "a @ js ''-'' @ b" 0]
  by (simp add: generateScore_def hash32_def Let_def abs_jsRem)


text \<open>
  C2, as stated: the accumulator update is \<^verbatim>\<open>(hash * 31 - hash) + codepoint\<close>. The code
  computes \<^verbatim>\<open>(hash << 5) - hash\<close>, which is \<open>hash * 32 - hash\<close>: on \<^verbatim>\<open>"ab"\<close> it returns
  \<open>97 * 31 + 98 = 3105\<close>, where the stated update gives \<open>97 * 30 + 98 = 3008\<close>.
\<close>

theorem C2_stated_update_differs:
  "hashCode (js ''ab'') = 3105 \<and> statedHash (js ''ab'') = 3008"
  by (simp add: hashCode_def statedHash_def js_def toInt32_def shl_def)

text \<open>
  C2, amended: for every string, both hash loops (\<^verbatim>\<open>hashCode\<close>, and the inner
  \<^verbatim>\<open>generateScore\<close> before its \<^verbatim>\<open>% 100\<close>) process the code units in sequence, updating the
  accumulator as \<^verbatim>\<open>hash = (hash * 32 - hash) + codepoint\<close>, that is \<open>31 * hash + codepoint\<close>,
  under 32-bit signed two's-complement wrap-around; \<^verbatim>\<open>hashCode\<close> returns the absolute value
  of the accumulator, and it returns 0 on the empty string. The result is a function of the
  string alone.
\<close>

theorem C2_hashCode_wraps_32_bit:
  "hashCode text = \<bar>sint (fold (\<lambda>c (h :: 32 word). (h * 32 - h) + ucast c) text 0)\<bar>
   \<and> hashCode text = \<bar>sint (fold (\<lambda>c (h :: 32 word). 31 * h + ucast c) text 0)\<bar>
   \<and> generateScore oppId userId = hashCode (oppId @ js ''-'' @ userId) mod 100
   \<and> hashCode [] = 0"
proof -
  have "(\<lambda>c (h :: 32 word). (h * 32 - h) + ucast c) = (\<lambda>(c :: 16 word) h. 31 * h + ucast c)"
    by (intro ext) simp
  then show ?thesis
    using hashCode_hash32 [of "text"] generateScore_hash32 [of oppId userId]
      hashCode_hash32 [of "oppId @ js ''-'' @ userId"]
    by (simp add: hash32_def) (simp add: hashCode_def)
qed

section \<open>The compatibility score\<close>

text \<open>
  C8: with an absent opportunity or an absent profile the scorer returns the default 50 and
  does not raise, whatever the other argument is.
\<close>

theorem C8_absent_argument_gives_50:
  "calculateCompatibilityScore lc None userProfile = Inr 50
   \<and> calculateCompatibilityScore lc opportunity None = Inr 50"
  by (simp add: calculateCompatibilityScore_def split: option.splits)


lemma inner_loop:
  "fold (\<lambda>subject (interestBonus :: int). if P subject then interestBonus + 5 else interestBonus) subs b
     = b + 5 * int (length (filter P subs))"
  by (induction subs arbitrary: b) simp_all

lemma length_matchingPairs_Cons:
  "length (matchingPairs lc (i # ints) subs)
     = length (filter (containsEitherWay lc i) subs) + length (matchingPairs lc ints subs)"
  by (simp add: matchingPairs_def filter_map o_def)

lemma outer_sum:
  "fold (\<lambda>i (b :: int). b + 5 * int (g i)) xs b = b + 5 * int (sum_list (map g xs))"
  by (induction xs arbitrary: b) (simp_all add: algebra_simps)

lemma length_matchingPairs:
  "length (matchingPairs lc ints subs)
     = sum_list (map (\<lambda>i. length (filter (containsEitherWay lc i) subs)) ints)"
  by (induction ints) (simp_all add: length_matchingPairs_Cons, simp add: matchingPairs_def)

lemma interestLoops_pairs:
  "interestLoops (map lc ints) (map lc subs) = 5 * int (length (matchingPairs lc ints subs))"
proof -
  have "interestLoops (map lc ints) (map lc subs)
          = fold (\<lambda>i (b :: int). b + 5 * int (length (filter
                    (\<lambda>subject. includes_str subject i \<or> includes_str i subject) (map lc subs))))
              (map lc ints) 0"
    by (simp add: interestLoops_def inner_loop)
  also have "\<dots> = 5 * int (sum_list (map (\<lambda>i. length (filter
                    (\<lambda>subject. includes_str subject i \<or> includes_str i subject) (map lc subs)))
              (map lc ints)))"
    by (simp only: outer_sum)
  also have "\<dots> = 5 * int (sum_list (map (\<lambda>i. length (filter (containsEitherWay lc i) subs)) ints))"
    by (simp add: filter_map o_def containsEitherWay_def [abs_def])
  finally show ?thesis
    by (simp add: length_matchingPairs)
qed

lemma finalScore_clamp: "finalScore baseScore bonus = clamp (baseScore + min 20 bonus) 0 100"
  by (simp add: finalScore_def clamp_def min_def max_def)

lemma clamp_range: "lo \<le> hi \<Longrightarrow> lo \<le> clamp x lo hi \<and> clamp x lo hi \<le> hi"
  by (simp add: clamp_def)

lemma baseScore_boundedHash:
  "generateScore (id_opp opp)
     (case id_user prof of None \<Rightarrow> js ''user123'' | Some u \<Rightarrow> if u = [] then js ''user123'' else u)
   = boundedHash (id_opp opp @ js ''-'' @ idOr (id_user prof) (js ''user123'')) 0 100"
  by (cases "id_user prof") (simp_all add: generateScore_hash32 boundedHash_def)

text \<open>
  C1, as stated, covers every non-null opportunity. The data model lets \<^verbatim>\<open>subjects\<close> be a
  comma-delimited string; the scorer calls \<^verbatim>\<open>opportunity.subjects.map\<close>, which a string does
  not have, so with such an opportunity and a profile that has interests it raises.
\<close>

theorem C1_string_subjects_raise:
  "calculateCompatibilityScore asciiLower
     (Some ((blankOpp (js ''opp-042''))\<lparr>subjects := Text (js ''AI, robotics'')\<rparr>))
     (Some (profileOf (js ''user123'') [js ''ai''])) = Inl TypeError"
  by (simp add: calculateCompatibilityScore_def blankOpp_def profileOf_def js_def)

text \<open>
  C1, amended: for every non-null opportunity whose \<^verbatim>\<open>subjects\<close> are absent, empty or a
  sequence of strings (or when the profile's \<^verbatim>\<open>interests\<close> field is absent; an empty list of
  interests is present and does not count) and every non-null profile, the score is \<open>clamp (base + bonus) 0 100\<close>, with
  \<open>base = boundedHash (id @ "-" @ (profile id or "user123")) 0 100\<close> and the bonus 5 for
  every pair (interest, subject) in which one lower-cased string contains the other, capped
  at 20; the score lies in \<open>[0, 100]\<close>.
\<close>

theorem C1_score_is_clamped_base_plus_bonus:
  assumes "interests prof = None \<or> \<not> nonEmptyText (subjects opp)"
  shows "calculateCompatibilityScore lc (Some opp) (Some prof) = Inr (specScore lc opp prof)
         \<and> 0 \<le> specScore lc opp prof \<and> specScore lc opp prof \<le> 100"
proof -
  have "calculateCompatibilityScore lc (Some opp) (Some prof) = Inr (specScore lc opp prof)"
  proof (cases "interests prof")
    case None
    then show ?thesis
      by (simp add: calculateCompatibilityScore_def baseScore_boundedHash specScore_def
          finalScore_clamp specBonus_def matchingPairs_def)
  next
    case (Some ints)
    with assms have ne: "\<not> nonEmptyText (subjects opp)" by simp
    show ?thesis
    proof (cases "subjects opp")
      case Absent
      with Some show ?thesis
        by (simp add: calculateCompatibilityScore_def baseScore_boundedHash specScore_def
            finalScore_clamp specBonus_def matchingPairs_def)
    next
      case (Text t)
      with ne have "t = []" by simp
      with Some Text show ?thesis
        by (simp add: calculateCompatibilityScore_def baseScore_boundedHash specScore_def
            finalScore_clamp specBonus_def matchingPairs_def)
    next
      case (Items subs)
      with Some show ?thesis
        by (simp add: calculateCompatibilityScore_def baseScore_boundedHash specScore_def
            finalScore_clamp specBonus_def interestLoops_pairs)
    qed
  qed
  then show ?thesis
    using clamp_range [of 0 100] by (simp add: specScore_def)
qed

theorem C1_score_witness:
  "calculateCompatibilityScore asciiLower
     (Some ((blankOpp (js ''opp-042''))\<lparr>subjects := Items [js ''Machine Learning'', js ''AI'']\<rparr>))
     (Some (profileOf (js ''user123'') [js ''machine learning'', js ''learning''])) = Inr 16"
proof -
  let ?opp = "(blankOpp (js ''opp-042''))\<lparr>subjects := Items [js ''Machine Learning'', js ''AI'']\<rparr>"
  let ?prof = "profileOf (js ''user123'') [js ''machine learning'', js ''learning'']"
  have h: "interests ?prof = None \<or> \<not> nonEmptyText (subjects ?opp)"
    by (simp add: blankOpp_def)
  have b: "boundedHash (id_opp ?opp @ js ''-'' @ idOr (id_user ?prof) (js ''user123'')) 0 100 = 6"
    by (simp add: boundedHash_def hash32_def js_def blankOpp_def profileOf_def)
  have m: "specBonus asciiLower (listOf (interests ?prof)) (itemsOf (subjects ?opp)) = 10"
    by (simp add: specBonus_def matchingPairs_def containsEitherWay_def includes_str_def
        asciiLower_def js_def blankOpp_def profileOf_def)
  have "specScore asciiLower ?opp ?prof = 16"
    unfolding specScore_def b m by (simp add: clamp_def)
  then show ?thesis
    using C1_score_is_clamped_base_plus_bonus [OF h, of asciiLower] by simp
qed

section \<open>The bulk scores of the list component\<close>







section \<open>The filter\<close>

lemma flags_chain:
  "(let filtered1 = (if fullyFunded_on filters
                           then filter (\<lambda>opp. fullyFunded opp) filtered0 else filtered0);
              filtered2 = (if international_on filters
                           then filter (\<lambda>opp. international opp) filtered1 else filtered1);
              filtered3 = (if hasDeadline filters
                           then filter (\<lambda>opp. truthyStr (deadline opp)
                                          \<and> deadline opp \<noteq> Some (js ''Deadline Not Specified''))
                                  filtered2
                           else filtered2);
              filtered4 = (if hasSupervisor filters
                           then filter (\<lambda>opp. truthyStr (supervisor opp)) filtered3 else filtered3)
          in (Inr filtered4 :: error + opportunity list)) = Inr (filter (keeps filters) filtered0)"
  by (induction filtered0) (auto simp add: keeps_def Let_def)

lemma filterOpportunities_flags:
  "filterOpportunities lc opportunities searchQuery filters =
     (case (if trim searchQuery \<noteq> []
            then filterE (matchesQuery lc (lc searchQuery)) opportunities
            else Inr opportunities) of
        Inl e \<Rightarrow> Inl e
      | Inr filtered0 \<Rightarrow> Inr (filter (keeps filters) filtered0))"
  by (simp only: filterOpportunities_def flags_chain)

lemma matchesQuery_present:
  "textFieldsPresent opp \<Longrightarrow> matchesQuery lc (lc q) opp = Inr (queryMatches lc q opp)"
  by (auto simp add: textFieldsPresent_def matchesQuery_def queryMatches_def fieldIncludes_def
      orElse_def split: bool.splits)

lemma filterE_total:
  "\<forall>x \<in> set xs. p x = Inr (P x) \<Longrightarrow> filterE p xs = Inr (filter P xs)"
  by (induction xs) simp_all

text \<open>
  C3, as stated: the flag \<^verbatim>\<open>hasDeadline\<close> keeps the opportunities whose deadline is present.
  The code's test is \<^verbatim>\<open>opp.deadline && opp.deadline !== 'Deadline Not Specified'\<close>: an
  opportunity whose deadline is the placeholder string is dropped, although its deadline is
  present.
\<close>

theorem C3_placeholder_deadline_dropped:
  "filterOpportunities asciiLower
     [(blankOpp (js ''a''))\<lparr>deadline := Some (js ''Deadline Not Specified'')\<rparr>] []
     (noFilters\<lparr>hasDeadline := True\<rparr>) = Inr []
   \<and> filter (statedKeeps (noFilters\<lparr>hasDeadline := True\<rparr>))
       [(blankOpp (js ''a''))\<lparr>deadline := Some (js ''Deadline Not Specified'')\<rparr>]
     = [(blankOpp (js ''a''))\<lparr>deadline := Some (js ''Deadline Not Specified'')\<rparr>]"
  by (simp add: filterOpportunities_def trim_def noFilters_def statedKeeps_def blankOpp_def js_def)

text \<open>
  C3, amended: the flags are AND-combined predicates over the list in its input order:
  \<^verbatim>\<open>fullyFunded\<close> keeps the opportunities with \<^verbatim>\<open>fullyFunded\<close> true, \<^verbatim>\<open>international\<close> those
  with \<^verbatim>\<open>international\<close> true, \<^verbatim>\<open>hasDeadline\<close> those whose deadline is a non-empty string other
  than \<^verbatim>\<open>'Deadline Not Specified'\<close>, \<^verbatim>\<open>hasSupervisor\<close> those whose supervisor is a non-empty
  string. This holds with a blank query and, when the four searched text fields are present,
  with any query (which adds its own predicate). In particular a blank query with only
  \<^verbatim>\<open>fullyFunded\<close> set returns exactly the fully funded opportunities, in their original order.
\<close>

theorem C3_flags_filter_in_order:
  "(trim searchQuery = [] \<longrightarrow>
      filterOpportunities lc opportunities searchQuery filters
        = Inr (filter (keeps filters) opportunities))
   \<and> ((\<forall>opp \<in> set opportunities. textFieldsPresent opp) \<longrightarrow>
      filterOpportunities lc opportunities searchQuery filters
        = Inr (filter (\<lambda>opp. (trim searchQuery \<noteq> [] \<longrightarrow> queryMatches lc searchQuery opp)
                              \<and> keeps filters opp) opportunities))
   \<and> filterOpportunities lc opportunities [] (noFilters\<lparr>fullyFunded_on := True\<rparr>)
        = Inr (filter fullyFunded opportunities)"
proof (intro conjI impI)
  assume "trim searchQuery = []"
  then show "filterOpportunities lc opportunities searchQuery filters
        = Inr (filter (keeps filters) opportunities)"
    by (simp add: filterOpportunities_flags)
next
  assume p: "\<forall>opp \<in> set opportunities. textFieldsPresent opp"
  show "filterOpportunities lc opportunities searchQuery filters
        = Inr (filter (\<lambda>opp. (trim searchQuery \<noteq> [] \<longrightarrow> queryMatches lc searchQuery opp)
                              \<and> keeps filters opp) opportunities)"
  proof (cases "trim searchQuery = []")
    case True
    then show ?thesis by (simp add: filterOpportunities_flags)
  next
    case False
    from p have "filterE (matchesQuery lc (lc searchQuery)) opportunities
                   = Inr (filter (queryMatches lc searchQuery) opportunities)"
      by (intro filterE_total) (simp add: matchesQuery_present)
    with False show ?thesis
      by (simp add: filterOpportunities_flags conj_commute)
  qed
next
  have "keeps (noFilters\<lparr>fullyFunded_on := True\<rparr>) = fullyFunded"
    by (intro ext) (simp add: keeps_def noFilters_def)
  then show "filterOpportunities lc opportunities [] (noFilters\<lparr>fullyFunded_on := True\<rparr>)
        = Inr (filter fullyFunded opportunities)"
    by (simp add: filterOpportunities_flags trim_def)
qed

theorem C3_flags_filter_witness:
  "filterOpportunities asciiLower
     [(blankOpp (js ''a''))\<lparr>title := Some (js ''Robotics''), fullyFunded := True\<rparr>,
      (blankOpp (js ''b''))\<lparr>fullyFunded := False\<rparr>,
      (blankOpp (js ''c''))\<lparr>fullyFunded := True\<rparr>] (js '' '') (noFilters\<lparr>fullyFunded_on := True\<rparr>)
   = Inr [(blankOpp (js ''a''))\<lparr>title := Some (js ''Robotics''), fullyFunded := True\<rparr>,
          (blankOpp (js ''c''))\<lparr>fullyFunded := True\<rparr>]"
proof -
  have t: "trim (js '' '') = []"
    by (simp add: trim_def js_def isWhiteSpace_def)
  show ?thesis
    using C3_flags_filter_in_order [of "js '' ''" asciiLower _ "noFilters\<lparr>fullyFunded_on := True\<rparr>"] t
    by (simp add: keeps_def noFilters_def blankOpp_def)
qed

section \<open>The sort\<close>

lemma mset_insertBy: "mset (insertBy compareFn x ys) = add_mset x (mset ys)"
  by (induction ys) simp_all

lemma mset_insertion: "mset (foldr (insertBy compareFn) xs []) = mset xs"
  by (induction xs) (simp_all add: mset_insertBy)

lemma mset_array_sort: "mset (array_sort engineSort compareFn xs) = mset xs"
  by (simp add: array_sort_def mset_insertion)

lemma set_array_sort: "set (array_sort engineSort compareFn xs) = set xs"
  by (metis mset_array_sort set_mset_mset)

lemma keyed_consistent:
  fixes k :: "'a \<Rightarrow> int"
  assumes "\<forall>x \<in> set xs. \<forall>y \<in> set xs. compareFn x y = Some (k y - k x)"
  shows "consistentOn compareFn xs"
  unfolding consistentOn_def
proof (intro conjI ballI impI)
  fix a b assume "a \<in> set xs" "b \<in> set xs"
  with assms show "compareFn a b \<noteq> None" by simp
next
  fix a assume "a \<in> set xs"
  with assms show "cmpNum (compareFn a a) = 0" by (simp add: cmpNum_def)
next
  fix a b assume "a \<in> set xs" "b \<in> set xs" "cmpNum (compareFn a b) = 0"
  with assms show "cmpNum (compareFn b a) = 0" by (simp add: cmpNum_def)
next
  fix a b c
  assume "a \<in> set xs" "b \<in> set xs" "c \<in> set xs"
    "cmpNum (compareFn a b) = 0 \<and> cmpNum (compareFn b c) = 0"
  with assms show "cmpNum (compareFn a c) = 0" by (simp add: cmpNum_def)
next
  fix a b c
  assume "a \<in> set xs" "b \<in> set xs" "c \<in> set xs"
    "cmpNum (compareFn a b) < 0 \<and> cmpNum (compareFn b c) < 0"
  with assms show "cmpNum (compareFn a c) < 0" by (simp add: cmpNum_def)
next
  fix a b c
  assume "a \<in> set xs" "b \<in> set xs" "c \<in> set xs"
    "0 < cmpNum (compareFn a b) \<and> 0 < cmpNum (compareFn b c)"
  with assms show "0 < cmpNum (compareFn a c)" by (simp add: cmpNum_def)
qed

lemma insertBy_insort_key:
  fixes k :: "'a \<Rightarrow> int"
  shows "\<forall>y \<in> set ys. compareFn x y = Some (k y - k x)
           \<Longrightarrow> insertBy compareFn x ys = insort_key (\<lambda>a. - k a) x ys"
  by (induction ys) (auto simp add: cmpNum_def)

lemma insertion_sort_key:
  fixes k :: "'a \<Rightarrow> int"
  assumes "\<forall>x \<in> set xs. \<forall>y \<in> set xs. compareFn x y = Some (k y - k x)"
  shows "foldr (insertBy compareFn) xs [] = sort_key (\<lambda>a. - k a) xs"
  using assms
proof (induction xs)
  case Nil
  show ?case by simp
next
  case (Cons x xs)
  then have ih: "foldr (insertBy compareFn) xs [] = sort_key (\<lambda>a. - k a) xs" by simp
  have "foldr (insertBy compareFn) (x # xs) [] = insertBy compareFn x (sort_key (\<lambda>a. - k a) xs)"
    using ih by simp
  also have "\<dots> = insort_key (\<lambda>a. - k a) x (sort_key (\<lambda>a. - k a) xs)"
    using Cons.prems by (intro insertBy_insort_key) simp
  finally show ?case by simp
qed

lemma array_sort_sort_key:
  fixes k :: "'a \<Rightarrow> int"
  assumes "\<forall>x \<in> set xs. \<forall>y \<in> set xs. compareFn x y = Some (k y - k x)"
  shows "array_sort engineSort compareFn xs = sort_key (\<lambda>a. - k a) xs"
  using keyed_consistent [OF assms] insertion_sort_key [OF assms]
  by (simp add: array_sort_def)

lemma not_consistent_NaN:
  "a \<in> set xs \<Longrightarrow> b \<in> set xs \<Longrightarrow> compareFn a b = None \<Longrightarrow> \<not> consistentOn compareFn xs"
  by (auto simp add: consistentOn_def)

lemma mset_binaryInsert: "mset (binaryInsert compareFn workArray pivot) = add_mset pivot (mset workArray)"
proof -
  have "mset (take n workArray) + mset (drop n workArray) = mset workArray" for n
    by (simp flip: mset_append)
  then show ?thesis
    by (simp add: binaryInsert_def Let_def)
qed

lemma mset_insertions:
  "mset (fold (\<lambda>pivot workArray. binaryInsert compareFn workArray pivot) rest workArray)
     = mset rest + mset workArray"
  by (induction rest arbitrary: workArray) (simp_all add: mset_binaryInsert)

lemma mset_countAndMakeRun: "mset (fst (countAndMakeRun compareFn xs)) = mset xs"
proof -
  have "mset (take n zs) + mset (drop n zs) = mset zs" for n and zs :: "'a list"
    by (simp flip: mset_append)
  then show ?thesis
    by (simp add: countAndMakeRun_def Let_def split: list.splits)
qed

lemma mset_v8Sort: "mset (v8Sort compareFn xs) = mset xs"
proof (cases "length xs < 2")
  case True
  then show ?thesis by (simp add: v8Sort_def)
next
  case False
  obtain ys n where c: "countAndMakeRun compareFn xs = (ys, n)"
    by (cases "countAndMakeRun compareFn xs")
  then have "mset ys = mset xs"
    using mset_countAndMakeRun [of compareFn xs] by simp
  moreover have "mset (take n ys) + mset (drop n ys) = mset ys"
    by (simp flip: mset_append)
  then have "mset (drop n ys) + mset (take n ys) = mset ys"
    by (simp only: add.commute)
  ultimately show ?thesis
    using False by (simp add: v8Sort_def c mset_insertions)
qed

lemma array_sort_v8:
  "\<not> consistentOn compareFn xs \<Longrightarrow> array_sort v8Sort compareFn xs = v8Sort compareFn xs"
  by (simp add: array_sort_def mset_v8Sort)

lemma sorted_descending:
  fixes k :: "'a \<Rightarrow> int"
  shows "sorted_wrt (\<lambda>a b. k b \<le> k a) (sort_key (\<lambda>a. - k a) xs)"
  using sorted_sort_key [of "\<lambda>a. - k a" xs] by (simp add: sorted_map)

lemma compatibility_sort_key:
  "sortOpportunities engineSort parseDate (js ''compatibility'') sortedScores xs
     = sort_key (\<lambda>a. - orDefault32 (sortedScores (id_opp a))) xs"
  unfolding sortOpportunities_def
  by (intro array_sort_sort_key) (simp add: compareOpportunities_def)

lemma date_sort_key:
  assumes "sortBy \<noteq> js ''compatibility''" and "\<forall>a \<in> set xs. dateOf parseDate a \<noteq> None"
  shows "sortOpportunities engineSort parseDate sortBy sortedScores xs
           = sort_key (\<lambda>a. - timeOf parseDate a) xs"
  unfolding sortOpportunities_def
proof (intro array_sort_sort_key ballI)
  fix x y assume "x \<in> set xs" "y \<in> set xs"
  with assms(2) have "dateOf parseDate x \<noteq> None" and "dateOf parseDate y \<noteq> None"
    by simp_all
  then obtain tx ty where "dateOf parseDate x = Some tx" "dateOf parseDate y = Some ty"
    by blast
  with assms(1) show "compareOpportunities parseDate sortBy sortedScores x y
           = Some (timeOf parseDate y - timeOf parseDate x)"
    by (simp add: compareOpportunities_def timeOf_def)
qed

lemma sort_key_neg_stable:
  fixes g :: "'a \<Rightarrow> int"
  shows "filter (\<lambda>a. g a = v) (sort_key (\<lambda>a. - g a) xs) = filter (\<lambda>a. g a = v) xs"
  using sort_key_stable [of "\<lambda>a. - g a" "- v" xs] by simp

text \<open>Where the comparator is consistent, the sort is stable.\<close>

lemma sort_stable_for_valid_keys:
  assumes "sortBy = js ''compatibility'' \<or> (\<forall>a \<in> set xs. dateOf parseDate a \<noteq> None)"
  shows "filter (\<lambda>a. sortKeyOf parseDate sortBy sortedScores a = k)
           (sortOpportunities engineSort parseDate sortBy sortedScores xs)
         = filter (\<lambda>a. sortKeyOf parseDate sortBy sortedScores a = k) xs"
proof -
  obtain g :: "opportunity \<Rightarrow> int" where
    s: "sortOpportunities engineSort parseDate sortBy sortedScores xs = sort_key (\<lambda>a. - g a) xs"
    and g: "\<forall>a \<in> set xs. sortKeyOf parseDate sortBy sortedScores a = Some (g a)"
  proof (cases "sortBy = js ''compatibility''")
    case True
    show ?thesis
      by (rule that [of "\<lambda>a. orDefault32 (sortedScores (id_opp a))"])
         (simp_all add: True compatibility_sort_key sortKeyOf_def)
  next
    case False
    with assms have d: "\<forall>a \<in> set xs. dateOf parseDate a \<noteq> None" by simp
    show ?thesis
    proof (rule that [of "timeOf parseDate"])
      show "sortOpportunities engineSort parseDate sortBy sortedScores xs
              = sort_key (\<lambda>a. - timeOf parseDate a) xs"
        using False d by (rule date_sort_key)
      show "\<forall>a \<in> set xs. sortKeyOf parseDate sortBy sortedScores a = Some (timeOf parseDate a)"
        using False d by (auto simp add: sortKeyOf_def timeOf_def)
    qed
  qed
  have f: "filter (\<lambda>a. sortKeyOf parseDate sortBy sortedScores a = k) ys
             = (case k of None \<Rightarrow> [] | Some v \<Rightarrow> filter (\<lambda>a. g a = v) ys)"
    if "set ys = set xs" for ys
  proof (cases k)
    case None
    with g that show ?thesis by (simp add: filter_empty_conv)
  next
    case (Some v)
    have "filter (\<lambda>a. sortKeyOf parseDate sortBy sortedScores a = k) ys = filter (\<lambda>a. g a = v) ys"
      using g that by (intro filter_cong refl) (simp add: Some)
    then show ?thesis by (simp add: Some)
  qed
  show ?thesis
    by (simp add: s f sort_key_neg_stable split: option.splits)
qed

lemma date_comparator:
  "compareOpportunities sampleDates (js ''date'') sortedScores a b
     = dateSub (dateOf sampleDates b) (dateOf sampleDates a)"
  by (simp add: compareOpportunities_def js_def)

lemma dateOf_placeholderOpp: "dateOf sampleDates (placeholderOpp i) = None"
  by (simp add: dateOf_def placeholderOpp_def blankOpp_def sampleDates_def js_def)

lemma dateOf_postedOpp:
  "dateOf sampleDates (postedOpp i (js ''2025-01-01'')) = Some 1735689600000"
  "dateOf sampleDates (postedOpp i (js ''2025-02-01'')) = Some 1738368000000"
  by (simp_all add: dateOf_def postedOpp_def blankOpp_def sampleDates_def js_def)

lemma binarySearch_stop:
  "\<not> left < right \<Longrightarrow> binarySearch compareFn pivot ys left right = left"
  by (simp add: binarySearch.simps)

lemma binarySearch_left:
  "left < right \<Longrightarrow> cmpNum (compareFn pivot (ys ! (left + (right - left) div 2))) < 0 \<Longrightarrow>
     binarySearch compareFn pivot ys left right
       = binarySearch compareFn pivot ys left (left + (right - left) div 2)"
  by (subst binarySearch.simps) (simp add: Let_def)

lemma binarySearch_right:
  "left < right \<Longrightarrow> \<not> cmpNum (compareFn pivot (ys ! (left + (right - left) div 2))) < 0 \<Longrightarrow>
     binarySearch compareFn pivot ys left right
       = binarySearch compareFn pivot ys (left + (right - left) div 2 + 1) right"
  by (subst binarySearch.simps) (simp add: Let_def)

lemma mixedDates_v8Sort:
  "v8Sort (compareOpportunities sampleDates (js ''date'') Map.empty) mixedDates
     = [placeholderOpp (js ''1''), placeholderOpp (js ''2''),
        postedOpp (js ''4'') (js ''2025-02-01''), postedOpp (js ''7'') (js ''2025-02-01''),
        postedOpp (js ''3'') (js ''2025-01-01''), placeholderOpp (js ''5''),
        postedOpp (js ''6'') (js ''2025-02-01'')]"
  by (simp add: mixedDates_def v8Sort_def countAndMakeRun_def binaryInsert_def
      binarySearch_stop binarySearch_left binarySearch_right
      date_comparator dateOf_placeholderOpp dateOf_postedOpp cmpNum_def Let_def)

lemma mixedDates_inconsistent:
  "\<not> consistentOn (compareOpportunities sampleDates (js ''date'') Map.empty) mixedDates"
  by (rule not_consistent_NaN [of "placeholderOpp (js ''1'')" _ "placeholderOpp (js ''1'')"])
     (simp_all add: mixedDates_def date_comparator dateOf_placeholderOpp)

lemma date_is_not_compatibility: "js ''date'' \<noteq> js ''compatibility''"
  by (simp add: js_def)

text \<open>
  C5, as stated: under the date key, every opportunity without a usable date stands after all
  opportunities with a usable date. Two inputs show otherwise. A deadline that is no date
  (here the placeholder the filter knows) makes the comparator return \<^verbatim>\<open>NaN\<close>, which
  \<^verbatim>\<open>sort\<close> reads as "equal": the opportunity stays in front of a dated one (on V8; with two
  elements no other order is reached by reading the comparator). And an opportunity without
  date fields gets the time value 0, which is later than any date before 1970: it is sorted
  in front of such an opportunity.
\<close>

theorem C5_unusable_dates_not_last:
  "\<not> unknownLast sampleDates
       (sortOpportunities v8Sort sampleDates (js ''date'') Map.empty
          [(blankOpp (js ''m''))\<lparr>deadline := Some (js ''Deadline Not Specified'')\<rparr>,
           (blankOpp (js ''v''))\<lparr>postedDate := Some (js ''2025-01-01'')\<rparr>])
   \<and> \<not> unknownLast sampleDates
       (sortOpportunities v8Sort sampleDates (js ''date'') Map.empty
          [(blankOpp (js ''old''))\<lparr>postedDate := Some (js ''1969-12-31'')\<rparr>,
           blankOpp (js ''none'')])"
proof -
  let ?m = "(blankOpp (js ''m''))\<lparr>deadline := Some (js ''Deadline Not Specified'')\<rparr>"
  let ?v = "(blankOpp (js ''v''))\<lparr>postedDate := Some (js ''2025-01-01'')\<rparr>"
  let ?old = "(blankOpp (js ''old''))\<lparr>postedDate := Some (js ''1969-12-31'')\<rparr>"
  let ?none = "blankOpp (js ''none'')"
  have dm: "dateOf sampleDates ?m = None" and dv: "dateOf sampleDates ?v = Some 1735689600000"
    and d_old: "dateOf sampleDates ?old = Some (- 86400000)" and dn: "dateOf sampleDates ?none = Some 0"
    by (simp_all add: dateOf_def blankOpp_def sampleDates_def js_def)
  have nc: "\<not> consistentOn (compareOpportunities sampleDates (js ''date'') Map.empty) [?m, ?v]"
    by (rule not_consistent_NaN [of ?m _ ?m]) (simp_all add: date_comparator dm)
  have "sortOpportunities v8Sort sampleDates (js ''date'') Map.empty [?m, ?v]
               = v8Sort (compareOpportunities sampleDates (js ''date'') Map.empty) [?m, ?v]"
    unfolding sortOpportunities_def by (rule array_sort_v8 [OF nc])
  also have "\<dots> = [?m, ?v]"
    by (simp add: v8Sort_def countAndMakeRun_def date_comparator dm dv cmpNum_def)
  finally have first: "sortOpportunities v8Sort sampleDates (js ''date'') Map.empty [?m, ?v] = [?m, ?v]" .
  have "\<forall>a \<in> set [?old, ?none]. dateOf sampleDates a \<noteq> None"
    by (simp add: d_old dn)
  then have "sortOpportunities v8Sort sampleDates (js ''date'') Map.empty [?old, ?none]
               = sort_key (\<lambda>a. - timeOf sampleDates a) [?old, ?none]"
    by (rule date_sort_key [OF date_is_not_compatibility])
  also have "\<dots> = [?none, ?old]"
    by (simp add: timeOf_def d_old dn)
  finally have second:
    "sortOpportunities v8Sort sampleDates (js ''date'') Map.empty [?old, ?none] = [?none, ?old]" .
  have um: "\<not> usableDate sampleDates ?m" and uv: "usableDate sampleDates ?v"
    and uo: "usableDate sampleDates ?old" and un: "\<not> usableDate sampleDates ?none"
    by (simp_all add: usableDate_def dm dv d_old dn) (simp_all add: noDateFields_def blankOpp_def js_def)
  show ?thesis
    by (simp only: first second) (simp add: um uv uo un del: One_nat_def)
qed

text \<open>
  C5, amended: for every input list in which each date that is read parses, sorting with a
  sort key other than \<^verbatim>\<open>"compatibility"\<close> reorders the list descending by the time value of
  \<^verbatim>\<open>postedDate\<close> if non-empty, else \<^verbatim>\<open>deadline\<close> if non-empty, else 0 (the epoch); hence every
  opportunity without date fields stands after all opportunities whose date is later than
  the epoch. Nothing is said about lists with a date string that does not parse.
\<close>

theorem C5_date_sort_descending:
  assumes "sortBy \<noteq> js ''compatibility''" and "\<forall>a \<in> set xs. dateOf parseDate a \<noteq> None"
  shows "mset (sortOpportunities engineSort parseDate sortBy sortedScores xs) = mset xs
   \<and> sorted_wrt (\<lambda>a b. timeOf parseDate b \<le> timeOf parseDate a)
        (sortOpportunities engineSort parseDate sortBy sortedScores xs)
   \<and> sorted_wrt (\<lambda>a b. \<not> (noDateFields a \<and> 0 < timeOf parseDate b))
        (sortOpportunities engineSort parseDate sortBy sortedScores xs)"
proof -
  have nd: "noDateFields a \<Longrightarrow> timeOf parseDate a = 0" for a
    by (cases "postedDate a"; cases "deadline a")
       (simp_all add: noDateFields_def timeOf_def dateOf_def)
  have s: "sorted_wrt (\<lambda>a b. timeOf parseDate b \<le> timeOf parseDate a)
        (sortOpportunities engineSort parseDate sortBy sortedScores xs)"
    by (simp only: date_sort_key [OF assms] sorted_descending)
  have "sorted_wrt (\<lambda>a b. \<not> (noDateFields a \<and> 0 < timeOf parseDate b))
        (sortOpportunities engineSort parseDate sortBy sortedScores xs)"
    by (rule sorted_wrt_mono_rel [OF _ s]) (use nd in fastforce)
  with s show ?thesis
    by (simp add: date_sort_key [OF assms])
qed

theorem C5_date_sort_witness:
  "js ''date'' \<noteq> js ''compatibility''
   \<and> sorted_wrt (\<lambda>a b. timeOf sampleDates b \<le> timeOf sampleDates a)
        (sortOpportunities v8Sort sampleDates (js ''date'') Map.empty
           [(blankOpp (js ''a''))\<lparr>postedDate := Some (js ''2025-01-01'')\<rparr>,
            blankOpp (js ''none''),
            (blankOpp (js ''b''))\<lparr>deadline := Some (js ''2025-02-01'')\<rparr>])
   \<and> map id_opp (sortOpportunities v8Sort sampleDates (js ''date'') Map.empty
           [(blankOpp (js ''a''))\<lparr>postedDate := Some (js ''2025-01-01'')\<rparr>,
            blankOpp (js ''none''),
            (blankOpp (js ''b''))\<lparr>deadline := Some (js ''2025-02-01'')\<rparr>])
       = [js ''b'', js ''a'', js ''none'']"
proof -
  let ?a = "(blankOpp (js ''a''))\<lparr>postedDate := Some (js ''2025-01-01'')\<rparr>"
  let ?n = "blankOpp (js ''none'')"
  let ?b = "(blankOpp (js ''b''))\<lparr>deadline := Some (js ''2025-02-01'')\<rparr>"
  have da: "dateOf sampleDates ?a = Some 1735689600000" and dn: "dateOf sampleDates ?n = Some 0"
    and db: "dateOf sampleDates ?b = Some 1738368000000"
    by (simp_all add: dateOf_def blankOpp_def sampleDates_def js_def)
  have d: "\<forall>x \<in> set [?a, ?n, ?b]. dateOf sampleDates x \<noteq> None"
    by (simp add: da dn db)
  have "sortOpportunities v8Sort sampleDates (js ''date'') Map.empty [?a, ?n, ?b]
          = sort_key (\<lambda>x. - timeOf sampleDates x) [?a, ?n, ?b]"
    using d by (rule date_sort_key [OF date_is_not_compatibility])
  also have "\<dots> = [?b, ?a, ?n]"
    by (simp add: timeOf_def da dn db)
  finally have m: "map id_opp (sortOpportunities v8Sort sampleDates (js ''date'') Map.empty [?a, ?n, ?b])
             = [js ''b'', js ''a'', js ''none'']"
    by (simp add: blankOpp_def)
  show ?thesis
    using C5_date_sort_descending [OF date_is_not_compatibility d, of v8Sort Map.empty]
      date_is_not_compatibility m
    by simp
qed

text \<open>
  C6, as stated: a missing cache entry counts as 32 (\<^verbatim>\<open>scoreCache.get(id) ?? 32\<close>), for every
  score cache. The code reads \<^verbatim>\<open>sortedScores.get(a.id) || 32\<close>, which also replaces a cached
  score of 0: with the cache \<open>{a: 0, b: 10}\<close> the list \<open>[a, b]\<close> stays as it is, which is not
  descending by the cached scores.
\<close>

theorem C6_zero_score_sorts_as_32:
  "\<not> sorted_wrt (\<lambda>a b. statedScore ([js ''a'' \<mapsto> 0, js ''b'' \<mapsto> 10] (id_opp b))
                        \<le> statedScore ([js ''a'' \<mapsto> 0, js ''b'' \<mapsto> 10] (id_opp a)))
       (sortOpportunities v8Sort sampleDates (js ''compatibility'') [js ''a'' \<mapsto> 0, js ''b'' \<mapsto> 10]
          [blankOpp (js ''a''), blankOpp (js ''b'')])"
  by (simp add: compatibility_sort_key) (simp add: blankOpp_def js_def)

text \<open>
  C6, amended: for every input list and every score cache, sorting with the sort key
  \<^verbatim>\<open>"compatibility"\<close> reorders the list descending by the cached score for the id, using 32
  for an opportunity whose id has no entry in the cache or whose cached score is 0.
\<close>

theorem C6_compatibility_sort_descending:
  "mset (sortOpportunities engineSort parseDate (js ''compatibility'') sortedScores xs) = mset xs
   \<and> sorted_wrt (\<lambda>a b. orDefault32 (sortedScores (id_opp b)) \<le> orDefault32 (sortedScores (id_opp a)))
        (sortOpportunities engineSort parseDate (js ''compatibility'') sortedScores xs)"
proof -
  have "sortOpportunities engineSort parseDate (js ''compatibility'') sortedScores xs
          = sort_key (\<lambda>a. - orDefault32 (sortedScores (id_opp a))) xs"
    by (rule compatibility_sort_key)
  moreover have "mset (sort_key (\<lambda>a. - orDefault32 (sortedScores (id_opp a))) xs) = mset xs"
    by (rule mset_sort)
  moreover have "sorted_wrt (\<lambda>a b. orDefault32 (sortedScores (id_opp b))
                                   \<le> orDefault32 (sortedScores (id_opp a)))
                   (sort_key (\<lambda>a. - orDefault32 (sortedScores (id_opp a))) xs)"
    by (rule sorted_descending)
  ultimately show ?thesis by simp
qed

text \<open>
  C7: the sort is to be stable for equal keys. It is where the comparator is consistent
  (\<open>sort_stable_for_valid_keys\<close>: under the compatibility key, and under the date key when
  every date that is read parses). The date comparator \<^verbatim>\<open>dateB - dateA\<close> does not guard
  against an invalid date, as the sort of searchService.js does with \<^verbatim>\<open>isNaN\<close>: it returns
  \<^verbatim>\<open>NaN\<close>, and the order is then the engine's. On V8 the seven opportunities of
  \<open>mixedDates\<close>, three of them without a date that parses, come out with the sixth and the
  seventh exchanged, although both were posted on 2025-02-01.
\<close>

theorem C7_equal_dates_swapped:
  "sortOpportunities v8Sort sampleDates (js ''date'') Map.empty mixedDates
     = [placeholderOpp (js ''1''), placeholderOpp (js ''2''),
        postedOpp (js ''4'') (js ''2025-02-01''), postedOpp (js ''7'') (js ''2025-02-01''),
        postedOpp (js ''3'') (js ''2025-01-01''), placeholderOpp (js ''5''),
        postedOpp (js ''6'') (js ''2025-02-01'')]
   \<and> sortKeyOf sampleDates (js ''date'') Map.empty (postedOpp (js ''6'') (js ''2025-02-01''))
       = sortKeyOf sampleDates (js ''date'') Map.empty (postedOpp (js ''7'') (js ''2025-02-01''))"
proof -
  have "sortKeyOf sampleDates (js ''date'') Map.empty (postedOpp i (js ''2025-02-01''))
          = Some 1738368000000" for i
  proof -
    have "js ''date'' \<noteq> js ''compatibility''" by (simp add: js_def)
    then show ?thesis by (simp add: sortKeyOf_def dateOf_postedOpp)
  qed
  then show ?thesis
    by (simp only: sortOpportunities_def array_sort_v8 [OF mixedDates_inconsistent]
        mixedDates_v8Sort)
qed

section \<open>Keyword extraction\<close>

lemma wordCount_loop:
  "fold (\<lambda>word wordCount.
           if length (filter isWordChar word) < 4 \<or> filter isWordChar word \<in> set stopWords
           then wordCount
           else countWord wordCount (filter isWordChar word)) words wc
     = fold (\<lambda>w wc. countWord wc w)
         (filter (\<lambda>w. \<not> (length w < 4 \<or> w \<in> set stopWords)) (map (filter isWordChar) words)) wc"
  by (induction words arbitrary: wc) simp_all

lemma extractKeywords_tokens:
  "extractKeywords lc engineSort opp
     = map fst (take 3 (array_sort engineSort (\<lambda>a b. jsSub (snd b) (snd a))
         (Object_entries (fold (\<lambda>w wc. countWord wc w) (validTokens lc opp) []))))"
  unfolding extractKeywords_def validTokens_def Let_def by (simp only: wordCount_loop)

lemma keys_setProp:
  "map fst (setProp wc k v) = (if k \<in> set (map fst wc) then map fst wc else map fst wc @ [k])"
  by (induction wc) (auto simp add: rev_image_eqI)

lemma map_of_None_keys: "(map_of wc k = None) = (k \<notin> set (map fst wc))"
  by (simp add: map_of_eq_None_iff)

lemma keys_countWord:
  "map fst (countWord wc w)
     = (if w \<in> set (map fst wc) \<or> w = protoAccessor then map fst wc else map fst wc @ [w])"
proof (cases "map_of wc w")
  case None
  then have "w \<notin> set (map fst wc)" by (simp add: map_of_None_keys)
  with None show ?thesis by (simp add: countWord_def keys_setProp)
next
  case (Some v)
  then have "w \<in> set (map fst wc)"
    using map_of_None_keys [of wc w] by simp
  with Some show ?thesis by (cases v) (simp_all add: countWord_def keys_setProp)
qed

lemma keys_wordCount:
  "distinct (map fst wc) \<Longrightarrow>
     distinct (map fst (fold (\<lambda>w wc. countWord wc w) toks wc))
     \<and> set (map fst (fold (\<lambda>w wc. countWord wc w) toks wc)) \<subseteq> set (map fst wc) \<union> set toks"
proof (induction toks arbitrary: wc)
  case Nil
  then show ?case by simp
next
  case (Cons t toks)
  let ?r = "map fst (fold (\<lambda>w wc. countWord wc w) toks (countWord wc t))"
  have d: "distinct (map fst (countWord wc t))"
    using Cons.prems by (simp add: keys_countWord)
  have s: "set (map fst (countWord wc t)) \<subseteq> set (map fst wc) \<union> {t}"
    by (auto simp add: keys_countWord)
  from Cons.IH [OF d] have "distinct ?r" and "set ?r \<subseteq> set (map fst (countWord wc t)) \<union> set toks"
    by simp_all
  with s have "distinct ?r \<and> set ?r \<subseteq> set (map fst wc) \<union> set (t # toks)"
    by (simp del: set_map) blast
  then show ?case by simp
qed

lemma mset_Object_entries: "mset (Object_entries obj) = mset obj"
  by (simp add: Object_entries_def)

lemma keys_sorted_entries:
  "mset (map fst (array_sort engineSort compareFn (Object_entries obj))) = mset (map fst obj)"
proof -
  have "mset (array_sort engineSort compareFn (Object_entries obj)) = mset obj"
    by (simp add: mset_array_sort mset_Object_entries)
  then have "image_mset fst (mset (array_sort engineSort compareFn (Object_entries obj))) = image_mset fst (mset obj)"
    by (rule arg_cong)
  then show ?thesis by (simp only: mset_map)
qed

lemma extractKeywords_keys:
  "distinct (extractKeywords lc engineSort opp) \<and> set (extractKeywords lc engineSort opp) \<subseteq> set (validTokens lc opp)"
proof -
  let ?wc = "fold (\<lambda>w wc. countWord wc w) (validTokens lc opp) []"
  let ?ks = "map fst (array_sort engineSort (\<lambda>a b. jsSub (snd b) (snd a)) (Object_entries ?wc))"
  have k: "distinct (map fst ?wc)" "set (map fst ?wc) \<subseteq> set (validTokens lc opp)"
    using keys_wordCount [of "[]" "validTokens lc opp"] by simp_all
  have e: "extractKeywords lc engineSort opp = take 3 ?ks"
    by (simp only: extractKeywords_tokens take_map)
  have m: "mset ?ks = mset (map fst ?wc)"
    by (rule keys_sorted_entries)
  from m k(1) have "distinct ?ks"
    using mset_eq_imp_distinct_iff by blast
  then have "distinct (take 3 ?ks)"
    by (rule distinct_take)
  moreover from m have "set ?ks = set (map fst ?wc)"
    by (rule mset_eq_setD)
  then have "set (take 3 ?ks) \<subseteq> set (validTokens lc opp)"
    using k(2) set_take_subset [of 3 ?ks] by blast
  ultimately show ?thesis by (simp only: e)
qed















lemma set_keyOrder: "set (keyOrder ks) = set ks"
  by (auto simp add: keyOrder_def)












text \<open>
  C10: the returned keywords are pairwise distinct: they are keys of the count object, and
  neither \<^verbatim>\<open>Object.entries\<close> nor the sort duplicates an entry.
\<close>

theorem C10_keywords_are_distinct: "distinct (extractKeywords lc engineSort opp)"
proof -
  have "distinct (extractKeywords lc engineSort opp)
          \<and> set (extractKeywords lc engineSort opp) \<subseteq> set (validTokens lc opp)"
    by (rule extractKeywords_keys)
  then show ?thesis by (rule conjunct1)
qed

end
